theory Spec2Isabelle
  imports Main
begin

section \<open>The composition root of the melog frontend\<close>

text \<open>
  The source, \<^verbatim>\<open>src/frontend/src/application/application.tsx\<close>:
  \<^verbatim>\<open>
  import { BrowserRouter } from 'react-router-dom';
  import { Router } from './router';
  import { Setter } from './setter';

  function Application() {
      return (
          <BrowserRouter>
              <Setter>
                  <Router />
              </Setter>
          </BrowserRouter>
      );
  }
  \<close>
  The function evaluates one JSX expression and returns it. A JSX tag \<open><T a=v>k</T>\<close> is
  a call \<open>createElement(T, {a: v}, k)\<close>, which builds an element object holding the
  component \<open>T\<close>, the attributes and the children; it does not call \<open>T\<close>.
\<close>

subsection \<open>Elements\<close>

text \<open>The three bindings the file imports, in the order of the import lines.\<close>

datatype component = BrowserRouter | Router | Setter

text \<open>
  The props a tag passes: its attributes, in source order, each value as written, and,
  kept apart from them, its children in source order (React hands them to the component
  as the prop \<open>children\<close>). Lines of white space between tags are no children in JSX.
\<close>

type_synonym props = "(string \<times> string) list"

datatype element =
  Element (elem_type: component) (elem_props: props) (elem_children: "element list")

definition createElement :: "component \<Rightarrow> props \<Rightarrow> element list \<Rightarrow> element" where
  "createElement t ps cs = Element t ps cs"

subsection \<open>Application\<close>

text \<open>
  \<open>Application\<close> declares no formal parameter. A JavaScript caller may still pass actual
  arguments (React passes the props object): \<open>args\<close> is that list, of whatever values,
  and no name of the body is bound to it. \<open>s\<close> is everything mutable the body could
  reach (module variables, the document, the history); the function returns it with the
  element, since a call could change it. The body is the single \<open>return\<close> of the JSX
  expression: \<open><Router />\<close> has no attribute and no child, \<open><Setter>\<close> and
  \<open><BrowserRouter>\<close> have no attribute and the one nested tag as child.
\<close>

definition Application :: "'a list \<Rightarrow> 's \<Rightarrow> element \<times> 's" where
  "Application args s =
     (createElement BrowserRouter []
        [createElement Setter []
           [createElement Router [] []]],
      s)"

subsection \<open>Reading an element tree\<close>

text \<open>All elements of a tree, the root first, then each child's elements in order.\<close>

primrec subtrees :: "element \<Rightarrow> element list" where
  "subtrees (Element t ps cs) = Element t ps cs # concat (map subtrees cs)"

text \<open>The elements of a tree that are of component \<open>c\<close>.\<close>

definition instances :: "component \<Rightarrow> element \<Rightarrow> element list" where
  "instances c e = filter (\<lambda>x. elem_type x = c) (subtrees e)"

text \<open>
  The nesting of a tree that is a single chain: the components from the outermost
  wrapper to the leaf. A tree where some element has two or more children has none.
\<close>

fun nesting :: "element \<Rightarrow> component list option" where
  "nesting (Element t ps []) = Some [t]"
| "nesting (Element t ps [c]) = map_option ((#) t) (nesting c)"
| "nesting (Element t ps (c # d # cs)) = None"

text \<open>
  For every element of component \<open>c\<close> in the tree, the components of its proper
  ancestors, outermost first. \<open>anc\<close> is the ancestors of the tree's root.
\<close>

primrec chains :: "component \<Rightarrow> component list \<Rightarrow> element \<Rightarrow> component list list" where
  "chains c anc (Element t ps cs) =
     (if t = c then [anc] else []) @ concat (map (chains c (anc @ [t])) cs)"

definition ancestors :: "component \<Rightarrow> element \<Rightarrow> component list list" where
  "ancestors c e = chains c [] e"

text \<open>Every element of component \<open>inner\<close> lies below some element of component \<open>outer\<close>.\<close>

definition only_inside :: "component \<Rightarrow> component \<Rightarrow> element \<Rightarrow> bool" where
  "only_inside outer inner e = list_all (\<lambda>anc. outer \<in> set anc) (ancestors inner e)"

subsection \<open>Rendering\<close>

text \<open>
  Modelled from the spec: the host's rendering of an element tree and the behaviour of
  the three collaborators, which application.tsx imports and never defines
  (\<open>react-router-dom\<close>, \<open>./router\<close>, \<open>./setter\<close>). The spec gives their contract only:
  a wrapper "renders its children after/while performing its own setup" (section 6),
  the Router "accepts no children in this usage" and renders a view, and "errors thrown
  during History Provider setup, Setter initialization, or Router rendering propagate
  unmodified up" (section 7). So a collaborator is taken as a parameter \<open>b\<close> saying, per
  component, whether its own setup throws (\<open>Some e\<close>, the thrown value) or completes
  (\<open>None\<close>); a rendered element is a \<open>View\<close> of its component over the views of its
  children; rendering goes from the outermost element inwards, children in order, and
  stops at the first thrown value, which is the result.
\<close>

datatype view = View component "view list"

fun render :: "(component \<Rightarrow> 'e option) \<Rightarrow> element \<Rightarrow> 'e + view"
  and render_children :: "(component \<Rightarrow> 'e option) \<Rightarrow> element list \<Rightarrow> 'e + view list" where
  "render b (Element t ps cs) =
     (case b t of
        Some e \<Rightarrow> Inl e
      | None \<Rightarrow>
          (case render_children b cs of
             Inl e \<Rightarrow> Inl e
           | Inr vs \<Rightarrow> Inr (View t vs)))"
| "render_children b [] = Inr []"
| "render_children b (c # cs) =
     (case render b c of
        Inl e \<Rightarrow> Inl e
      | Inr v \<Rightarrow>
          (case render_children b cs of
             Inl e \<Rightarrow> Inl e
           | Inr vs \<Rightarrow> Inr (v # vs)))"

text \<open>
  Mounting: the host calls \<open>Application\<close> and renders the element it returns. The call
  itself has no \<open>throw\<close> and no \<open>try\<close>, so the result of mounting is the result of
  rendering, with the state the call left.
\<close>

definition mount :: "(component \<Rightarrow> 'e option) \<Rightarrow> 'a list \<Rightarrow> 's \<Rightarrow> ('e + view) \<times> 's" where
  "mount b args s = (case Application args s of (e, s') \<Rightarrow> (render b e, s'))"

section \<open>Properties\<close>

lemma Application_tree:
  "Application args s =
     (Element BrowserRouter [] [Element Setter [] [Element Router [] []]], s)"
  by (simp add: Application_def createElement_def)

subsection \<open>The tree readers tell trees apart\<close>

lemma subtrees_Application:
  "subtrees (fst (Application args s)) =
     [Element BrowserRouter [] [Element Setter [] [Element Router [] []]],
      Element Setter [] [Element Router [] []],
      Element Router [] []]"
  by (simp add: Application_tree)

lemma nesting_siblings:
  "nesting (Element Setter [] [Element Router [] [], Element Router [] []]) = None"
  by simp

lemma nesting_other_order:
  "nesting (Element Setter [] [Element BrowserRouter [] [Element Router [] []]])
     = Some [Setter, BrowserRouter, Router]"
  by simp

lemma only_inside_sibling:
  "\<not> only_inside Setter Router
        (Element BrowserRouter [] [Element Setter [] [], Element Router [] []])"
  by (simp add: only_inside_def ancestors_def)

subsection \<open>Rendering returns what was thrown, or a view\<close>

lemma render_error_is_thrown:
  "render b e = Inl x \<Longrightarrow> \<exists>c. b c = Some x"
  "render_children b es = Inl x \<Longrightarrow> \<exists>c. b c = Some x"
  by (induction b e and b es rule: render_render_children.induct)
     (auto split: option.splits sum.splits)

lemma render_completes:
  "\<forall>c. b c = None \<Longrightarrow> \<exists>v. render b e = Inr v"
  "\<forall>c. b c = None \<Longrightarrow> \<exists>vs. render_children b es = Inr vs"
  by (induction b e and b es rule: render_render_children.induct)
     (auto split: option.splits sum.splits)

text \<open>
  The two scenarios of the spec's section 8: every collaborator completes, and the Setter
  throws during its initialization.
\<close>

lemma mount_all_complete:
  "fst (mount (\<lambda>c. None) args s) = Inr (View BrowserRouter [View Setter [View Router []]])"
  by (simp add: mount_def Application_tree)

lemma mount_Setter_throws:
  "fst (mount (\<lambda>c. if c = Setter then Some e else None) args s) = Inl e"
  by (simp add: mount_def Application_tree)

subsection \<open>What Application returns\<close>

text \<open>
  C1. Whatever the arguments and the state of an invocation, the returned tree is one
  chain: BrowserRouter outermost, Setter directly inside it, Router the leaf.
\<close>

theorem Application_nesting:
  "nesting (fst (Application args s)) = Some [BrowserRouter, Setter, Router]"
  by (simp add: Application_tree)

text \<open>
  C4. The tree of every invocation holds exactly one BrowserRouter element, and the root
  of the tree is of component BrowserRouter.
\<close>

theorem Application_one_BrowserRouter:
  "length (instances BrowserRouter (fst (Application args s))) = 1
   \<and> elem_type (fst (Application args s)) = BrowserRouter"
  by (simp add: Application_tree instances_def)

text \<open>
  C5. In the tree of every invocation there is one Router element, its ancestors are
  BrowserRouter and then Setter, and so every Router element lies below a Setter element.
\<close>

theorem Application_Router_inside_Setter:
  "ancestors Router (fst (Application args s)) = [[BrowserRouter, Setter]]
   \<and> only_inside Setter Router (fst (Application args s))"
  by (simp add: Application_tree only_inside_def ancestors_def)

text \<open>
  C6. The result of an invocation is the same for any two argument lists, of whatever
  types of values: no caller-supplied value reaches the output.
\<close>

theorem Application_ignores_arguments:
  "Application (args :: 'a list) s = Application (args' :: 'b list) s"
  by (simp add: Application_def)

text \<open>
  C7. An invocation leaves the state as it found it: the call returns the composed tree
  and the unchanged state.
\<close>

theorem Application_no_side_effect:
  "snd (Application args s) = s"
  by (simp add: Application_def)

text \<open>
  C3. Any two invocations, with whatever arguments and in whatever states, return equal
  trees, so neither reads anything the other could have written; each of the two leaves
  the state exactly as it found it, so neither writes anything the other could read; and
  a second invocation run in the state the first one left ends in the state the first one
  started from.
\<close>

theorem Application_deterministic:
  "fst (Application (args :: 'a list) s) = fst (Application (args' :: 'b list) s')
   \<and> snd (Application args s) = s
   \<and> snd (Application args' s') = s'
   \<and> snd (Application args' (snd (Application args s))) = s"
  by (simp add: Application_def)

text \<open>
  C8. Every BrowserRouter element of the tree has no attribute, and its children are the
  one Setter element.
\<close>

theorem Application_BrowserRouter_default:
  "map elem_props (instances BrowserRouter (fst (Application args s))) = [[]]
   \<and> map (map elem_type \<circ> elem_children) (instances BrowserRouter (fst (Application args s)))
       = [[Setter]]"
  by (simp add: Application_tree instances_def)

text \<open>
  C9. The Router elements of the tree are one element, with no attribute and no child.
\<close>

theorem Application_Router_leaf:
  "instances Router (fst (Application args s)) = [Element Router [] []]"
  by (simp add: Application_tree instances_def)

text \<open>
  C10. The tree holds one Setter element, and its children are exactly one element: the
  Router element without attribute or child.
\<close>

theorem Application_Setter_one_child:
  "map elem_children (instances Setter (fst (Application args s))) = [[Element Router [] []]]"
  by (simp add: Application_tree instances_def)

text \<open>
  C2. Mounting Application returns the value thrown by the first collaborator, in nesting
  order, whose setup throws, exactly as thrown; when none throws it returns the full view.
  Nothing else can come out: no fallback view, no other error.
\<close>

theorem Application_propagates_errors:
  "fst (mount b args s) =
     (case b BrowserRouter of
        Some e \<Rightarrow> Inl e
      | None \<Rightarrow>
          (case b Setter of
             Some e \<Rightarrow> Inl e
           | None \<Rightarrow>
               (case b Router of
                  Some e \<Rightarrow> Inl e
                | None \<Rightarrow> Inr (View BrowserRouter [View Setter [View Router []]]))))"
  by (simp add: mount_def Application_tree split: option.split)

end
